theory Spec2Isabelle
  imports Complex_Main "HOL-Library.Sublist"
begin

section \<open>Exceptions\<close>

text \<open>
  The Python exceptions that the modelled code can raise. A function that can raise
  returns a value of a sum type with \<open>Inl\<close> for the exception.
\<close>

datatype py_error = ZeroDivisionError | IndexError | AssertionError | RuntimeError | FileNotFoundError

section \<open>Tensors and state dictionaries\<close>

text \<open>
  Arithmetic on tensor entries is modelled on the real numbers: rounding, overflow and
  NaN of the floating-point types are outside the model. A batch tensor is the list of its
  rows (one row per sample); a parameter tensor is the list of its entries. A state
  dictionary is an ordered dictionary from parameter names to tensors.
\<close>

type_synonym tensor = "real list"
type_synonym state_dict = "(string \<times> tensor) list"

definition keys :: "state_dict \<Rightarrow> string list" where
  "keys sd = map fst sd"

text \<open>
  \<^verbatim>\<open>d[k] = v\<close> on a Python dictionary: an existing key keeps its position and takes the
  new value, a new key is appended.
\<close>

fun dict_set :: "state_dict \<Rightarrow> string \<Rightarrow> tensor \<Rightarrow> state_dict" where
  "dict_set [] k v = [(k, v)]"
| "dict_set ((k', v') # sd) k v =
     (if k' = k then (k, v) # sd else (k', v') # dict_set sd k v)"

text \<open>
  \<^verbatim>\<open>s.replace(old, new)\<close> for a non-empty \<open>old\<close>: every non-overlapping occurrence of
  \<open>old\<close>, found from the left, is replaced.
\<close>

fun replace_all :: "string \<Rightarrow> string \<Rightarrow> string \<Rightarrow> string" where
  "replace_all old new [] = []"
| "replace_all old new (c # cs) =
     (if old \<noteq> [] \<and> take (length old) (c # cs) = old
      then new @ replace_all old new (drop (length old) (c # cs))
      else c # replace_all old new cs)"

text \<open>
  The two renaming loops of \<open>load_model\<close>:
  \<^verbatim>\<open>for k, v in state_dict.items(): k = k.replace("module.", ""); new_state_dict[k] = v\<close>
  and the same with \<^verbatim>\<open>k = "module." + k\<close>.
\<close>

fun strip_module_loop :: "state_dict \<Rightarrow> state_dict \<Rightarrow> state_dict" where
  "strip_module_loop new_state_dict [] = new_state_dict"
| "strip_module_loop new_state_dict ((k, v) # items) =
     strip_module_loop (dict_set new_state_dict (replace_all ''module.'' [] k) v) items"

fun add_module_loop :: "state_dict \<Rightarrow> state_dict \<Rightarrow> state_dict" where
  "add_module_loop new_state_dict [] = new_state_dict"
| "add_module_loop new_state_dict ((k, v) # items) =
     add_module_loop (dict_set new_state_dict (''module.'' @ k) v) items"

text \<open>
  \<open>torch.nn.Module.load_state_dict\<close> in its default strict mode, which the source calls:
  every parameter whose name is stored with a tensor of the same size takes the stored
  value; afterwards RuntimeError is raised if a name of the module is missing from the
  dictionary, a stored name is unknown to the module, or a size differs. The parameters
  already copied stay copied when it raises, so both outcomes carry the resulting
  parameters.
\<close>

definition copy_matching :: "state_dict \<Rightarrow> state_dict \<Rightarrow> state_dict" where
  "copy_matching params sd =
     map (\<lambda>(k, v). (k, case map_of sd k of
                           Some w \<Rightarrow> if length w = length v then w else v
                         | None \<Rightarrow> v)) params"

definition compatible :: "state_dict \<Rightarrow> state_dict \<Rightarrow> bool" where
  "compatible params sd \<longleftrightarrow>
     set (keys sd) = set (keys params) \<and>
     list_all (\<lambda>(k, v). case map_of sd k of Some w \<Rightarrow> length w = length v | None \<Rightarrow> False) params"

definition load_state_dict :: "state_dict \<Rightarrow> state_dict \<Rightarrow> (py_error + unit) \<times> state_dict" where
  "load_state_dict params sd =
     (if compatible params sd then (Inr (), copy_matching params sd)
      else (Inl RuntimeError, copy_matching params sd))"

section \<open>The \<open>PiModel\<close> object\<close>

text \<open>
  The calls whose order the specification constrains are recorded in a history field.
  A forward pass records on which input it ran and whether the normalization statistics
  were frozen at that moment.
\<close>

datatype batch = Labeled | UnlabeledW1 | UnlabeledW2 | EvalBatch

datatype event =
    Forward batch bool
  | FreezeBN
  | UnfreezeBN
  | ComposeLoss
  | ModelEval
  | ModelTrain
  | ApplyShadow
  | Restore

text \<open>
  The fields of \<open>PiModel\<close> that the modelled methods read or write. \<open>model\<close> holds the
  named parameters of \<open>self.model\<close>, \<open>ddp\<close> whether \<open>self.model\<close> is a
  \<open>DistributedDataParallel\<close> wrapper (its parameter names then carry the prefix
  \<open>module.\<close>), \<open>training\<close> the mode set by \<open>model.train()\<close> and \<open>model.eval()\<close>,
  \<open>bn_frozen\<close> the state of the \<open>Bn_Controller\<close>, \<open>shadow\<close> and \<open>backup\<close> the two
  dictionaries of the \<open>EMA\<close> object \<open>self.ema\<close>. The optimizer and the scheduler are
  represented by their state dictionaries.
\<close>

record pimodel =
  model :: state_dict
  ddp :: bool
  training :: bool
  bn_frozen :: bool
  ema_model :: state_dict
  shadow :: state_dict
  backup :: state_dict
  optimizer :: state_dict
  scheduler :: state_dict
  it :: int
  lambda_u :: real
  history :: "event list"

text \<open>
  A method that can raise returns the exception or its value, together with the object as
  the method left it: an exception does not undo the assignments made before it.
\<close>

type_synonym 'a action = "pimodel \<Rightarrow> (py_error + 'a) \<times> pimodel"

definition then_do :: "'a action \<Rightarrow> ('a \<Rightarrow> 'b action) \<Rightarrow> 'b action" where
  "then_do m f st = (case m st of (Inl e, st') \<Rightarrow> (Inl e, st') | (Inr x, st') \<Rightarrow> f x st')"

definition log :: "event \<Rightarrow> pimodel \<Rightarrow> pimodel" where
  "log ev st = st\<lparr>history := history st @ [ev]\<rparr>"

subsection \<open>Collaborators defined outside the given sources\<close>

text \<open>
  Modelled from the spec: the class \<open>EMA\<close> of \<open>train_utils\<close> is imported by
  \<open>pimodel.py\<close> and is not among the sources. The specification says that
  \<open>apply_shadow\<close> swaps the live model's parameters for the shadow values in place and
  that \<open>restore\<close> swaps the originals back. A parameter without a shadow entry keeps its
  live value.
\<close>

definition apply_shadow :: "pimodel \<Rightarrow> pimodel" where
  "apply_shadow st =
     log ApplyShadow
       (st\<lparr>backup := model st,
           model := map (\<lambda>(k, v). (k, case map_of (shadow st) k of Some s \<Rightarrow> s | None \<Rightarrow> v))
                      (model st)\<rparr>)"

definition restore :: "pimodel \<Rightarrow> pimodel" where
  "restore st = log Restore (st\<lparr>model := backup st, backup := []\<rparr>)"

text \<open>
  Modelled from the spec: the class \<open>Bn_Controller\<close> of \<open>train_utils\<close> is imported by
  \<open>pimodel.py\<close> and is not among the sources. The specification says that \<open>freeze_bn\<close>
  disables the running-statistics updates of all normalization layers and that
  \<open>unfreeze_bn\<close> re-enables them.
\<close>

definition freeze_bn :: "pimodel \<Rightarrow> pimodel" where
  "freeze_bn st = log FreezeBN (st\<lparr>bn_frozen := True\<rparr>)"

definition unfreeze_bn :: "pimodel \<Rightarrow> pimodel" where
  "unfreeze_bn st = log UnfreezeBN (st\<lparr>bn_frozen := False\<rparr>)"

text \<open>
  \<open>self.model(x)\<close>: the network is a parameter \<open>net\<close> that maps the current parameters
  and the input to the logits or to an exception. The call is recorded before the
  network runs.
\<close>

definition forward ::
  "(state_dict \<Rightarrow> 'x \<Rightarrow> py_error + real list list) \<Rightarrow> batch \<Rightarrow> 'x \<Rightarrow> (real list list) action"
where
  "forward net b x st =
     (let st' = log (Forward b (bn_frozen st)) st in (net (model st') x, st'))"

definition model_eval :: "pimodel \<Rightarrow> pimodel" where
  "model_eval st = log ModelEval (st\<lparr>training := False\<rparr>)"

definition model_train :: "pimodel \<Rightarrow> pimodel" where
  "model_train st = log ModelTrain (st\<lparr>training := True\<rparr>)"


section \<open>\<open>PiModel.interleave_offsets\<close>\<close>

text \<open>
  \<^verbatim>\<open>groups = [batch // (nu + 1)] * (nu + 1)\<close>: Python's \<open>//\<close> is floor division, as
  \<open>div\<close> on \<open>int\<close> is, and raises for a zero divisor; \<open>[v] * k\<close> is empty for
  \<open>k \<le> 0\<close>. The loop \<^verbatim>\<open>for x in range(batch - sum(groups)): groups[-x - 1] += 1\<close>
  is \<open>bump_groups\<close> over \<open>[0 ..< nat (batch - sum groups)]\<close>; the negative index
  \<open>-x - 1\<close> addresses position \<open>len - x - 1\<close> and raises IndexError once \<open>x \<ge> len\<close>.
  The second loop appends the running sum; the assertion is the last test.
\<close>

fun bump_groups :: "int list \<Rightarrow> nat list \<Rightarrow> py_error + int list" where
  "bump_groups groups [] = Inr groups"
| "bump_groups groups (x # xs) =
     (if x < length groups
      then bump_groups (groups[length groups - x - 1 := groups ! (length groups - x - 1) + 1]) xs
      else Inl IndexError)"

fun accumulate_offsets :: "int list \<Rightarrow> int list \<Rightarrow> int list" where
  "accumulate_offsets offsets [] = offsets"
| "accumulate_offsets offsets (g # gs) = accumulate_offsets (offsets @ [last offsets + g]) gs"

definition interleave_offsets :: "int \<Rightarrow> int \<Rightarrow> py_error + int list" where
  "interleave_offsets batch nu =
     (if nu + 1 = 0 then Inl ZeroDivisionError
      else
        let groups = replicate (nat (nu + 1)) (batch div (nu + 1)) in
        case bump_groups groups [0 ..< nat (batch - sum_list groups)] of
          Inl e \<Rightarrow> Inl e
        | Inr groups' \<Rightarrow>
            let offsets = accumulate_offsets [0] groups' in
            if last offsets = batch then Inr offsets else Inl AssertionError)"



section \<open>\<open>PiModel.train\<close>: one iteration up to the composed loss\<close>

text \<open>
  \<^verbatim>\<open>np.clip(a, a_min, a_max)\<close> on a scalar.
\<close>

definition np_clip :: "real \<Rightarrow> real \<Rightarrow> real \<Rightarrow> real" where
  "np_clip a a_min a_max = min (max a a_min) a_max"

text \<open>
  \<^verbatim>\<open>np.clip(self.it / (args.unsup_warmup_pos * args.num_train_iter), a_min=0.0, a_max=1.0)\<close>.
  The division is Python's division of an \<open>int\<close> by a \<open>float\<close> and raises
  ZeroDivisionError for a zero divisor.
\<close>

definition unsup_warmup :: "int \<Rightarrow> real \<Rightarrow> int \<Rightarrow> py_error + real" where
  "unsup_warmup i unsup_warmup_pos num_train_iter =
     (if unsup_warmup_pos * of_int num_train_iter = 0 then Inl ZeroDivisionError
      else Inr (np_clip (of_int i / (unsup_warmup_pos * of_int num_train_iter)) 0 1))"

text \<open>
  What one pass through the loop body produces before the parameter update: the loop is
  left by \<open>break\<close> when \<open>self.it > args.num_train_iter\<close>, otherwise the three losses
  are computed. \<open>ce_loss\<close> (of \<open>train_utils\<close>) and \<open>consistency_loss\<close> (of
  \<open>pimodel_utils\<close>) are imported from modules outside the given sources and are
  parameters here, as the network is. The section on \<open>pimodel_utils\<close> below gives the
  consistency loss that the specification describes.
\<close>

datatype step = Break | Losses (sup_loss: real) (unsup_loss: real) (total_loss: real)

definition run :: "(pimodel \<Rightarrow> pimodel) \<Rightarrow> unit action" where
  "run f st = (Inr (), f st)"

definition train_losses ::
  "int \<Rightarrow> real \<Rightarrow> (state_dict \<Rightarrow> real list list \<Rightarrow> py_error + real list list)
   \<Rightarrow> (real list list \<Rightarrow> nat list \<Rightarrow> real) \<Rightarrow> (real list list \<Rightarrow> real list list \<Rightarrow> real)
   \<Rightarrow> real list list \<Rightarrow> nat list \<Rightarrow> real list list \<Rightarrow> real list list \<Rightarrow> step action"
where
  "train_losses num_train_iter unsup_warmup_pos net ce_loss consistency x_lb y_lb x_ulb_w1 x_ulb_w2 st =
     (if it st > num_train_iter then (Inr Break, st)
      else
        case unsup_warmup (it st) unsup_warmup_pos num_train_iter of
          Inl e \<Rightarrow> (Inl e, st)
        | Inr warmup \<Rightarrow>
            then_do (forward net Labeled x_lb) (\<lambda>logits_x_lb.
            then_do (run freeze_bn) (\<lambda>_.
            then_do (forward net UnlabeledW1 x_ulb_w1) (\<lambda>logits_x_ulb_w1.
            then_do (forward net UnlabeledW2 x_ulb_w2) (\<lambda>logits_x_ulb_w2.
            then_do (run unfreeze_bn) (\<lambda>_.
            then_do (run (log ComposeLoss)) (\<lambda>_. (\<lambda>st'.
              (let sup = ce_loss logits_x_lb y_lb;
                   unsup = consistency logits_x_ulb_w1 logits_x_ulb_w2
               in (Inr (Losses sup unsup (sup + lambda_u st' * unsup * warmup)), st')))))))))
            st)"

section \<open>\<open>PiModel.train\<close>: the evaluation block of an iteration\<close>

text \<open>
  The local variables \<open>best_eval_acc\<close> and \<open>best_it\<close> of \<open>train\<close>, initialised to
  \<open>0.0\<close> and \<open>0\<close>.
\<close>

record tracker =
  best_eval_acc :: real
  best_it :: int

definition initial_tracker :: tracker where
  "initial_tracker = \<lparr>best_eval_acc = 0, best_it = 0\<rparr>"

text \<open>
  \<^verbatim>\<open>not args.multiprocessing_distributed or (args.multiprocessing_distributed and
  args.rank % ngpus_per_node == 0)\<close>: \<open>or\<close> and \<open>and\<close> evaluate their right operand only
  when needed, and \<open>%\<close> raises for a zero divisor.
\<close>

definition is_writer :: "bool \<Rightarrow> int \<Rightarrow> int \<Rightarrow> py_error + bool" where
  "is_writer multiprocessing_distributed rank ngpus_per_node =
     (if \<not> multiprocessing_distributed then Inr True
      else if ngpus_per_node = 0 then Inl ZeroDivisionError
      else Inr (rank mod ngpus_per_node = 0))"

text \<open>
  Lines 169 to 189 of \<open>pimodel.py\<close>, given the top-1 accuracy that \<open>evaluate\<close>
  returned: the tracker after the block and the names under which \<open>save_model\<close> was
  called in it. \<open>i\<close> is \<open>self.it\<close>.
\<close>

definition eval_block ::
  "bool \<Rightarrow> int \<Rightarrow> int \<Rightarrow> int \<Rightarrow> int \<Rightarrow> real \<Rightarrow> tracker \<Rightarrow> py_error + (tracker \<times> string list)"
where
  "eval_block multiprocessing_distributed rank ngpus_per_node num_eval_iter i top1_acc tr =
     (if num_eval_iter = 0 then Inl ZeroDivisionError
      else if i mod num_eval_iter \<noteq> 0 then Inr (tr, [])
      else
        let tr' = (if top1_acc > best_eval_acc tr
                   then tr\<lparr>best_eval_acc := top1_acc, best_it := i\<rparr> else tr)
        in case is_writer multiprocessing_distributed rank ngpus_per_node of
             Inl e \<Rightarrow> Inl e
           | Inr w \<Rightarrow> Inr (tr', if w \<and> i = best_it tr' then [''model_best.pth''] else []))"

section \<open>\<open>PiModel.evaluate\<close>\<close>

record eval_acc =
  total_loss_acc :: real
  total_num :: real
  y_true :: "nat list"
  all_logits :: "real list list"

record eval_dict =
  eval_loss :: real
  top_1_acc :: real
  top_5_acc :: real

text \<open>
  The loop over the evaluation loader. \<open>cross_entropy\<close> stands for
  \<open>F.cross_entropy\<close>. The lists \<open>y_pred\<close> and \<open>y_logits\<close> of the source are functions
  of the logits (\<open>torch.max\<close> and \<open>torch.softmax\<close>), so the accumulator keeps the
  logits. An exception of the forward pass or of the loss leaves the loop at once.
\<close>

fun eval_loop ::
  "(state_dict \<Rightarrow> real list list \<Rightarrow> py_error + real list list)
   \<Rightarrow> (real list list \<Rightarrow> nat list \<Rightarrow> py_error + real)
   \<Rightarrow> (real list list \<times> nat list) list \<Rightarrow> eval_acc \<Rightarrow> eval_acc action"
where
  "eval_loop net cross_entropy [] acc st = (Inr acc, st)"
| "eval_loop net cross_entropy ((x, y) # rest) acc st =
     (case forward net EvalBatch x st of
        (Inl e, st') \<Rightarrow> (Inl e, st')
      | (Inr logits, st') \<Rightarrow>
          (case cross_entropy logits y of
             Inl e \<Rightarrow> (Inl e, st')
           | Inr loss \<Rightarrow>
               eval_loop net cross_entropy rest
                 (acc\<lparr>total_num := total_num acc + real (length x),
                      y_true := y_true acc @ y,
                      all_logits := all_logits acc @ logits,
                      total_loss_acc := total_loss_acc acc + loss * real (length x)\<rparr>)
                 st'))"

text \<open>
  \<open>metrics\<close> stands for lines 228 to 231 (the calls of \<open>accuracy_score\<close>,
  \<open>top_k_accuracy_score\<close> and \<open>confusion_matrix\<close> of scikit-learn and the printing of
  the matrix): it returns the top-1 and the top-5 accuracy or raises. With an empty
  loader the final \<^verbatim>\<open>total_loss / total_num\<close> divides the float \<open>0.0\<close> by the float
  \<open>0.0\<close>, which raises.
\<close>

definition evaluate ::
  "(state_dict \<Rightarrow> real list list \<Rightarrow> py_error + real list list)
   \<Rightarrow> (real list list \<Rightarrow> nat list \<Rightarrow> py_error + real)
   \<Rightarrow> (nat list \<Rightarrow> real list list \<Rightarrow> py_error + real \<times> real)
   \<Rightarrow> (real list list \<times> nat list) list \<Rightarrow> eval_dict action"
where
  "evaluate net cross_entropy metrics eval_loader st =
     (let st1 = apply_shadow (model_eval st) in
      case eval_loop net cross_entropy eval_loader
             \<lparr>total_loss_acc = 0, total_num = 0, y_true = [], all_logits = []\<rparr> st1 of
        (Inl e, st2) \<Rightarrow> (Inl e, st2)
      | (Inr acc, st2) \<Rightarrow>
          (case metrics (y_true acc) (all_logits acc) of
             Inl e \<Rightarrow> (Inl e, st2)
           | Inr (top1, top5) \<Rightarrow>
               let st3 = model_train (restore st2) in
               if eval_loader = [] then (Inl ZeroDivisionError, st3)
               else (Inr \<lparr>eval_loss = total_loss_acc acc / total_num acc,
                          top_1_acc = top1, top_5_acc = top5\<rparr>, st3)))"

section \<open>\<open>PiModel.save_model\<close> and \<open>PiModel.load_model\<close>\<close>

record checkpoint =
  ck_model :: state_dict
  ck_optimizer :: state_dict
  ck_scheduler :: state_dict
  ck_it :: int
  ck_ema_model :: state_dict

text \<open>
  The files written by \<open>torch.save\<close> and read by \<open>torch.load\<close>, by path. Writing is
  taken to succeed; reading a path that was never written raises.
\<close>

type_synonym files = "string \<rightharpoonup> checkpoint"

text \<open>\<open>os.path.join\<close> of two components on POSIX.\<close>

definition os_path_join :: "string \<Rightarrow> string \<Rightarrow> string" where
  "os_path_join a b =
     (if b \<noteq> [] \<and> hd b = CHR ''/'' then b
      else if a = [] \<or> last a = CHR ''/'' then a @ b
      else a @ ''/'' @ b)"

definition save_model :: "string \<Rightarrow> string \<Rightarrow> pimodel \<Rightarrow> files \<Rightarrow> pimodel \<times> files" where
  "save_model save_name save_path st fs =
     (let save_filename = os_path_join save_path save_name;
          st1 = apply_shadow (model_eval st);
          ema_model_copy = model st1;
          st2 = model_train (restore st1)
      in (st2, fs(save_filename \<mapsto>
                   \<lparr>ck_model = model st2,
                    ck_optimizer = optimizer st2,
                    ck_scheduler = scheduler st2,
                    ck_it = it st2,
                    ck_ema_model = ema_model_copy\<rparr>)))"

definition load_into_model :: "state_dict \<Rightarrow> unit action" where
  "load_into_model sd st =
     (case load_state_dict (model st) sd of (r, params) \<Rightarrow> (r, st\<lparr>model := params\<rparr>))"

definition load_into_ema_model :: "state_dict \<Rightarrow> unit action" where
  "load_into_ema_model sd st =
     (case load_state_dict (ema_model st) sd of (r, params) \<Rightarrow> (r, st\<lparr>ema_model := params\<rparr>))"

text \<open>
  The three statements that end both fallback branches and the method itself. The
  \<open>load_state_dict\<close> of the optimizer and of the scheduler is taken to replace their
  state by the stored one.
\<close>

definition load_training_state :: "checkpoint \<Rightarrow> pimodel \<Rightarrow> pimodel" where
  "load_training_state ck st =
     st\<lparr>optimizer := ck_optimizer ck, scheduler := ck_scheduler ck, it := ck_it ck\<rparr>"

text \<open>
  \<open>except Exception\<close> catches the error of either direct load. An exception raised
  inside the handler is not caught and leaves \<open>load_model\<close>.
\<close>

definition load_model :: "string \<Rightarrow> files \<Rightarrow> unit action" where
  "load_model load_path fs st =
     (case fs load_path of
        None \<Rightarrow> (Inl FileNotFoundError, st)
      | Some ck \<Rightarrow>
          let st0 = st\<lparr>ema_model := model st\<rparr> in
          case then_do (load_into_model (ck_model ck))
                 (\<lambda>_. load_into_ema_model (ck_ema_model ck)) st0 of
            (Inr _, st1) \<Rightarrow> (Inr (), load_training_state ck st1)
          | (Inl _, st1) \<Rightarrow>
              if \<not> ddp st1 then
                (case then_do (load_into_model (strip_module_loop [] (ck_model ck)))
                        (\<lambda>_. load_into_ema_model (strip_module_loop [] (ck_ema_model ck))) st1 of
                   (Inl e, st2) \<Rightarrow> (Inl e, st2)
                 | (Inr _, st2) \<Rightarrow>
                     (Inr (), load_training_state ck (load_training_state ck st2)))
              else
                (case then_do (load_into_model (add_module_loop [] (ck_model ck)))
                        (\<lambda>_. load_into_ema_model (add_module_loop [] (ck_ema_model ck))) st1 of
                   (Inl e, st2) \<Rightarrow> (Inl e, st2)
                 | (Inr _, st2) \<Rightarrow>
                     (Inr (), load_training_state ck (load_training_state ck st2))))"

section \<open>\<open>remixmatch_utils\<close>\<close>

text \<open>
  \<open>torch.softmax(t, dim=-1)\<close> on one row and \<open>F.mse_loss(input, target,
  reduction='mean')\<close> on two batches of the same shape: the mean of the squared
  differences over all entries.
\<close>

definition softmax :: "real list \<Rightarrow> real list" where
  "softmax z = map (\<lambda>v. exp v / sum_list (map exp z)) z"

definition squared_error :: "real list \<Rightarrow> real list \<Rightarrow> real" where
  "squared_error r s = sum_list (map2 (\<lambda>a b. (a - b)\<^sup>2) r s)"

definition mse_loss :: "real list list \<Rightarrow> real list list \<Rightarrow> real" where
  "mse_loss input target =
     sum_list (map2 squared_error input target) / real (sum_list (map length input))"

definition consistency_loss :: "real list list \<Rightarrow> real list list \<Rightarrow> real" where
  "consistency_loss logits_w y = mse_loss (map softmax logits_w) y"

text \<open>
  \<open>mixup_one_target\<close>. The two random draws are arguments: \<open>beta_draw\<close> is the value of
  \<open>np.random.beta(alpha, alpha)\<close>, \<open>index\<close> the value of \<open>torch.randperm(x.size(0))\<close>.
  \<open>x[index, :]\<close> and \<open>y[index]\<close> select rows and raise IndexError for a position
  outside the batch; scalar multiplication and addition are entrywise.
\<close>

definition rows_at :: "real list list \<Rightarrow> nat list \<Rightarrow> py_error + real list list" where
  "rows_at t index =
     (if list_all (\<lambda>i. i < length t) index then Inr (map (\<lambda>i. t ! i) index)
      else Inl IndexError)"

definition scale :: "real \<Rightarrow> real list list \<Rightarrow> real list list" where
  "scale c t = map (map (\<lambda>v. c * v)) t"

definition add :: "real list list \<Rightarrow> real list list \<Rightarrow> real list list" where
  "add s t = map2 (map2 (\<lambda>a b. a + b)) s t"

definition mixup_one_target ::
  "real list list \<Rightarrow> real list list \<Rightarrow> real \<Rightarrow> bool \<Rightarrow> real \<Rightarrow> nat list
   \<Rightarrow> py_error + real list list \<times> real list list \<times> real"
where
  "mixup_one_target x y alpha is_bias beta_draw index =
     (let lam = (if alpha > 0 then beta_draw else 1);
          lam = (if is_bias then max lam (1 - lam) else lam)
      in case rows_at x index of
           Inl e \<Rightarrow> Inl e
         | Inr x_perm \<Rightarrow>
             let mixed_x = add (scale lam x) (scale (1 - lam) x_perm)
             in case rows_at y index of
                  Inl e \<Rightarrow> Inl e
                | Inr y_perm \<Rightarrow>
                    let mixed_y = add (scale lam y) (scale (1 - lam) y_perm)
                    in Inr (mixed_x, mixed_y, lam))"

section \<open>\<open>pimodel_utils\<close>\<close>

text \<open>
  Modelled from the spec: the function \<open>consistency_loss\<close> of \<open>pimodel_utils\<close> is
  imported by \<open>pimodel.py\<close> and is not among the sources. The specification says that
  the unsupervised loss of the PiModel variant is the mean-squared error between the
  softmax outputs of two weakly-augmented views of the same unlabeled image. The
  arguments are the logits of the two views, in the order in which \<open>train\<close> passes
  them.
\<close>

definition pimodel_utils_consistency_loss :: "real list list \<Rightarrow> real list list \<Rightarrow> real" where
  "pimodel_utils_consistency_loss logits_w1 logits_w2 =
     mse_loss (map softmax logits_w1) (map softmax logits_w2)"

section \<open>Concrete objects\<close>

text \<open>
  A single-device model with one parameter whose shadow value differs from the live one.
\<close>

definition demo_model :: pimodel where
  "demo_model = \<lparr>model = [(''w'', [1])], ddp = False, training = True, bn_frozen = False,
     ema_model = [(''w'', [1])], shadow = [(''w'', [2])], backup = [],
     optimizer = [(''momentum'', [0])], scheduler = [(''last_epoch'', [0])],
     it = 0, lambda_u = 1, history = []\<rparr>"

text \<open>
  A replicated model whose network has a child named \<open>submodule\<close>, the single-device
  model of the same network, and the checkpoint that \<open>save_model\<close> writes for the
  replicated one.
\<close>

definition replicated_model :: pimodel where
  "replicated_model = \<lparr>model = [(''module.submodule.weight'', [1])], ddp = True,
     training = True, bn_frozen = False,
     ema_model = [(''module.submodule.weight'', [1])],
     shadow = [(''module.submodule.weight'', [3])], backup = [],
     optimizer = [(''momentum'', [5])], scheduler = [(''last_epoch'', [7])],
     it = 7, lambda_u = 1, history = []\<rparr>"

definition single_model :: pimodel where
  "single_model = \<lparr>model = [(''submodule.weight'', [0])], ddp = False,
     training = True, bn_frozen = False,
     ema_model = [(''submodule.weight'', [0])],
     shadow = [(''submodule.weight'', [0])], backup = [],
     optimizer = [(''momentum'', [0])], scheduler = [(''last_epoch'', [0])],
     it = 0, lambda_u = 1, history = []\<rparr>"

definition replicated_checkpoint :: checkpoint where
  "replicated_checkpoint = \<lparr>ck_model = [(''module.submodule.weight'', [1])],
     ck_optimizer = [(''momentum'', [5])], ck_scheduler = [(''last_epoch'', [7])],
     ck_it = 7, ck_ema_model = [(''module.submodule.weight'', [3])]\<rparr>"

text \<open>
  The same pair for a network whose parameter names do not contain \<open>module.\<close>.
\<close>

definition replicated_fc :: pimodel where
  "replicated_fc = \<lparr>model = [(''module.fc.weight'', [1, 2]), (''module.fc.bias'', [3])],
     ddp = True, training = True, bn_frozen = False,
     ema_model = [(''module.fc.weight'', [1, 2]), (''module.fc.bias'', [3])],
     shadow = [(''module.fc.weight'', [4, 5]), (''module.fc.bias'', [6])], backup = [],
     optimizer = [(''momentum'', [5])], scheduler = [(''last_epoch'', [7])],
     it = 7, lambda_u = 1, history = []\<rparr>"

definition single_fc :: pimodel where
  "single_fc = \<lparr>model = [(''fc.weight'', [0, 0]), (''fc.bias'', [0])],
     ddp = False, training = True, bn_frozen = False,
     ema_model = [(''fc.weight'', [0, 0]), (''fc.bias'', [0])],
     shadow = [(''fc.weight'', [0, 0]), (''fc.bias'', [0])], backup = [],
     optimizer = [(''momentum'', [0])], scheduler = [(''last_epoch'', [0])],
     it = 0, lambda_u = 1, history = []\<rparr>"


section \<open>Properties of \<open>interleave_offsets\<close>\<close>

lemma bump_one:
  assumes "j < n"
  shows "(replicate (n - j) q @ replicate j (q + 1))
           [n - j - 1 := (replicate (n - j) q @ replicate j (q + 1)) ! (n - j - 1) + 1]
         = replicate (n - Suc j) q @ replicate (Suc j) (q + (1::int))"
proof (rule nth_equalityI)
  show "length ((replicate (n - j) q @ replicate j (q + 1))
           [n - j - 1 := (replicate (n - j) q @ replicate j (q + 1)) ! (n - j - 1) + 1])
        = length (replicate (n - Suc j) q @ replicate (Suc j) (q + 1))"
    using assms by simp
next
  fix i
  assume "i < length ((replicate (n - j) q @ replicate j (q + 1))
           [n - j - 1 := (replicate (n - j) q @ replicate j (q + 1)) ! (n - j - 1) + 1])"
  then have i: "i < n" using assms by simp
  show "(replicate (n - j) q @ replicate j (q + 1))
           [n - j - 1 := (replicate (n - j) q @ replicate j (q + 1)) ! (n - j - 1) + 1] ! i
        = (replicate (n - Suc j) q @ replicate (Suc j) (q + 1)) ! i"
    using assms i by (auto simp: nth_list_update nth_append)
qed

lemma bump_groups_upt:
  "j \<le> k \<Longrightarrow> k \<le> n \<Longrightarrow>
   bump_groups (replicate (n - j) q @ replicate j (q + 1)) [j ..< k]
     = Inr (replicate (n - k) q @ replicate k (q + 1))"
proof (induction "k - j" arbitrary: j)
  case 0
  then show ?case by simp
next
  case (Suc d)
  then have jk: "j < k" and jn: "j < n" by auto
  have upt: "[j ..< k] = j # [Suc j ..< k]" using jk by (simp add: upt_conv_Cons)
  have "bump_groups (replicate (n - j) q @ replicate j (q + 1)) [j ..< k]
        = bump_groups (replicate (n - Suc j) q @ replicate (Suc j) (q + 1)) [Suc j ..< k]"
    using jn bump_one [OF jn, of q] by (simp add: upt del: upt_Suc replicate_Suc)
  also have "\<dots> = Inr (replicate (n - k) q @ replicate k (q + 1))"
    using Suc.hyps(1) [of "Suc j"] Suc.hyps(2) Suc.prems jk by simp
  finally show ?case .
qed

lemma length_accumulate_offsets:
  "length (accumulate_offsets offs gs) = length offs + length gs"
  by (induction gs arbitrary: offs) auto

lemma accumulate_offsets_keeps:
  "i < length offs \<Longrightarrow> accumulate_offsets offs gs ! i = offs ! i"
  by (induction gs arbitrary: offs) (auto simp: nth_append)

lemma nth_accumulate_offsets:
  "offs \<noteq> [] \<Longrightarrow> i \<le> length gs \<Longrightarrow>
   accumulate_offsets offs gs ! (length offs - 1 + i) = last offs + sum_list (take i gs)"
proof (induction gs arbitrary: offs i)
  case Nil
  then show ?case by (simp add: last_conv_nth)
next
  case (Cons g gs)
  show ?case
  proof (cases i)
    case 0
    then show ?thesis
      using Cons.prems(1) accumulate_offsets_keeps [of "length offs - 1" "offs @ [last offs + g]" gs]
      by (simp add: nth_append last_conv_nth)
  next
    case (Suc i')
    have idx: "length offs - 1 + Suc i' = length (offs @ [last offs + g]) - 1 + i'"
      using Cons.prems(1) by (cases offs) auto
    show ?thesis
      unfolding Suc idx accumulate_offsets.simps
      using Cons.IH [of "offs @ [last offs + g]" i'] Cons.prems Suc by simp
  qed
qed

lemma offsets_nth:
  "i \<le> length gs \<Longrightarrow> accumulate_offsets [0] gs ! i = sum_list (take i gs)"
  using nth_accumulate_offsets [of "[0]" i gs] by simp

lemma offsets_last:
  "last (accumulate_offsets [0] gs) = sum_list gs"
proof -
  have "accumulate_offsets [0] gs \<noteq> []"
    using length_accumulate_offsets [of "[0]" gs] by auto
  then have "last (accumulate_offsets [0] gs) = accumulate_offsets [0] gs ! length gs"
    using length_accumulate_offsets [of "[0]" gs] by (simp add: last_conv_nth)
  then show ?thesis using offsets_nth [of "length gs" gs] by simp
qed

lemma offsets_step:
  "i < length gs \<Longrightarrow>
   accumulate_offsets [0] gs ! Suc i - accumulate_offsets [0] gs ! i = gs ! i"
  using offsets_nth [of "Suc i" gs] offsets_nth [of i gs]
  by (simp add: take_Suc_conv_app_nth)

lemma offsets_sorted:
  "\<forall>g \<in> set gs. 0 \<le> g \<Longrightarrow> sorted (accumulate_offsets [0] gs)"
proof -
  assume nonneg: "\<forall>g \<in> set gs. 0 \<le> g"
  have "accumulate_offsets [0] gs ! i \<le> accumulate_offsets [0] gs ! Suc i"
    if "Suc i < length (accumulate_offsets [0] gs)" for i
  proof -
    from that have i: "i < length gs" by (simp add: length_accumulate_offsets)
    then have "0 \<le> gs ! i" using nonneg by simp
    then show ?thesis using offsets_step [OF i] by linarith
  qed
  then show ?thesis by (simp add: sorted_iff_nth_Suc)
qed

lemma sum_list_groups:
  "sum_list (replicate a q @ replicate b (q + 1)) = (int a + int b) * q + int (b::nat)"
  by (simp add: sum_list_replicate algebra_simps)

lemma groups_after_bump:
  assumes "0 \<le> batch" "0 \<le> nu"
  shows "bump_groups (replicate (nat (nu + 1)) (batch div (nu + 1)))
           [0 ..< nat (batch - sum_list (replicate (nat (nu + 1)) (batch div (nu + 1))))]
         = Inr (replicate (nat (nu + 1) - nat (batch mod (nu + 1))) (batch div (nu + 1))
                @ replicate (nat (batch mod (nu + 1))) (batch div (nu + 1) + 1))"
proof -
  let ?n = "nat (nu + 1)" and ?q = "batch div (nu + 1)" and ?r = "nat (batch mod (nu + 1))"
  have pos: "0 < nu + 1" using assms by simp
  have "sum_list (replicate ?n ?q) = (nu + 1) * ?q"
    using pos by (simp add: sum_list_replicate)
  then have rest: "batch - sum_list (replicate ?n ?q) = batch mod (nu + 1)"
    by (simp add: minus_mult_div_eq_mod)
  have le: "?r \<le> ?n" using pos pos_mod_bound [of "nu + 1" batch] by linarith
  show ?thesis
    using bump_groups_upt [of 0 ?r ?n ?q] le by (simp add: rest)
qed

lemma two_sizes_close:
  "a \<in> {q, q + 1} \<Longrightarrow> b \<in> {q, q + 1} \<Longrightarrow> \<bar>a - b\<bar> \<le> (1::int)"
  by auto

text \<open>
  Claim C10. For every \<open>batch \<ge> 0\<close> and \<open>nu \<ge> 0\<close>, \<open>interleave_offsets batch nu\<close>
  returns (so neither the index operation nor the assertion \<open>offsets[-1] == batch\<close>
  fails) a list of \<open>nu + 2\<close> non-decreasing integers that starts with 0 and ends with
  \<open>batch\<close>; the \<open>nu + 1\<close> contiguous groups it delimits have sizes that differ from
  each other by at most 1.
\<close>

theorem interleave_offsets_partition:
  assumes "0 \<le> batch" "0 \<le> nu"
  shows "\<exists>offsets. interleave_offsets batch nu = Inr offsets
           \<and> length offsets = nat nu + 2
           \<and> sorted offsets
           \<and> hd offsets = 0
           \<and> last offsets = batch
           \<and> (\<forall>i j. i \<le> nat nu \<and> j \<le> nat nu \<longrightarrow>
                 \<bar>(offsets ! Suc i - offsets ! i) - (offsets ! Suc j - offsets ! j)\<bar> \<le> 1)"
proof -
  let ?n = "nat (nu + 1)" and ?q = "batch div (nu + 1)" and ?r = "nat (batch mod (nu + 1))"
  let ?gs = "replicate (?n - ?r) ?q @ replicate ?r (?q + 1)"
  let ?offs = "accumulate_offsets [0] ?gs"
  have pos: "0 < nu + 1" using assms by simp
  have r0: "0 \<le> batch mod (nu + 1)" using pos by simp
  have le: "?r \<le> ?n" using pos pos_mod_bound [of "nu + 1" batch] by linarith
  have q0: "0 \<le> ?q" using assms pos by (simp add: pos_imp_zdiv_nonneg_iff)
  have len_gs: "length ?gs = ?n" using le by simp
  have "sum_list ?gs = (int (?n - ?r) + int ?r) * ?q + int ?r"
    by (rule sum_list_groups)
  also have "\<dots> = (nu + 1) * ?q + batch mod (nu + 1)"
    using le pos r0 by (simp add: of_nat_diff)
  also have "\<dots> = batch" by simp
  finally have total: "sum_list ?gs = batch" .
  have last: "last ?offs = batch" using offsets_last [of ?gs] total by simp
  have run: "interleave_offsets batch nu = Inr ?offs"
    using pos groups_after_bump [OF assms] last
    by (simp add: interleave_offsets_def Let_def)
  have len: "length ?offs = nat nu + 2"
    using len_gs assms by (simp add: length_accumulate_offsets nat_add_distrib)
  have nonneg: "\<forall>g \<in> set ?gs. 0 \<le> g" using q0 by auto
  have srt: "sorted ?offs" using offsets_sorted [OF nonneg] .
  have ne: "?offs \<noteq> []" using len by auto
  have hd0: "hd ?offs = 0"
    using accumulate_offsets_keeps [of 0 "[0]" ?gs] by (simp add: hd_conv_nth [OF ne])
  have size: "?offs ! Suc i - ?offs ! i \<in> {?q, ?q + 1}" if "i \<le> nat nu" for i
  proof -
    from that have i: "i < length ?gs" using len_gs assms by (simp add: nat_add_distrib)
    have "?gs ! i \<in> set ?gs" using i by (rule nth_mem)
    then have "?gs ! i \<in> {?q, ?q + 1}" by auto
    then show ?thesis using offsets_step [OF i] by simp
  qed
  have diff: "\<bar>(?offs ! Suc i - ?offs ! i) - (?offs ! Suc j - ?offs ! j)\<bar> \<le> 1"
    if "i \<le> nat nu \<and> j \<le> nat nu" for i j
    using that by (intro two_sizes_close [of _ ?q] size) simp_all
  show ?thesis
  proof (intro exI conjI allI impI)
    show "interleave_offsets batch nu = Inr ?offs" by (rule run)
    show "length ?offs = nat nu + 2" by (rule len)
    show "sorted ?offs" by (rule srt)
    show "hd ?offs = 0" by (rule hd0)
    show "last ?offs = batch" by (rule last)
    show "\<bar>(?offs ! Suc i - ?offs ! i) - (?offs ! Suc j - ?offs ! j)\<bar> \<le> 1"
      if "i \<le> nat nu \<and> j \<le> nat nu" for i j
      using that by (rule diff)
  qed
qed

theorem interleave_offsets_partition_witness:
  "(0::int) \<le> 10 \<and> (0::int) \<le> 3 \<and> interleave_offsets 10 3 = Inr [0, 2, 4, 7, 10]"
proof -
  have run: "interleave_offsets 10 3 = Inr [0, 2, 4, 7, 10]" by code_simp
  from interleave_offsets_partition [of 10 3] run show ?thesis by simp
qed

section \<open>Warmup factor and loss composition\<close>

lemma np_clip_mono: "a \<le> b \<Longrightarrow> np_clip a lo hi \<le> np_clip b lo hi"
  by (simp add: np_clip_def min_def max_def)

text \<open>
  Claim C8. For a positive warmup fraction \<open>unsup_warmup_pos\<close> and a positive budget
  \<open>num_train_iter\<close> the warmup factor is computed without an exception for every value
  of the iteration counter, it is 0 at \<open>it = 0\<close>, it is monotonically non-decreasing in
  \<open>it\<close>, and it is 1 for every \<open>it \<ge> unsup_warmup_pos * num_train_iter\<close>.
\<close>

theorem unsup_warmup_ramp:
  assumes "0 < unsup_warmup_pos" and "0 < num_train_iter"
  shows "unsup_warmup 0 unsup_warmup_pos num_train_iter = Inr 0
       \<and> (\<forall>i j. i \<le> j \<longrightarrow>
             (\<exists>a b. unsup_warmup i unsup_warmup_pos num_train_iter = Inr a
                  \<and> unsup_warmup j unsup_warmup_pos num_train_iter = Inr b \<and> a \<le> b))
       \<and> (\<forall>i. unsup_warmup_pos * of_int num_train_iter \<le> of_int i \<longrightarrow>
             unsup_warmup i unsup_warmup_pos num_train_iter = Inr 1)"
proof -
  let ?d = "unsup_warmup_pos * of_int num_train_iter"
  have d: "0 < ?d" using assms by simp
  have run: "unsup_warmup i unsup_warmup_pos num_train_iter = Inr (np_clip (of_int i / ?d) 0 1)" for i
    using assms by (simp add: unsup_warmup_def)
  have zero: "unsup_warmup 0 unsup_warmup_pos num_train_iter = Inr 0"
    by (simp add: run np_clip_def)
  have mono: "np_clip (of_int i / ?d) 0 1 \<le> np_clip (of_int j / ?d) 0 1" if "i \<le> j" for i j :: int
  proof (rule np_clip_mono)
    from that have "(of_int i :: real) \<le> of_int j" by simp
    then show "of_int i / ?d \<le> of_int j / ?d" using d by (simp add: divide_right_mono)
  qed
  have one: "unsup_warmup i unsup_warmup_pos num_train_iter = Inr 1" if "?d \<le> of_int i" for i
  proof -
    from that d have "1 \<le> of_int i / ?d" by (simp add: le_divide_eq)
    then show ?thesis by (simp add: run np_clip_def)
  qed
  show ?thesis using zero mono one run by blast
qed

theorem unsup_warmup_ramp_witness:
  "(0::real) < 1 / 2 \<and> (0::int) < 100
   \<and> unsup_warmup 0 (1 / 2) 100 = Inr 0
   \<and> unsup_warmup 25 (1 / 2) 100 = Inr (1 / 2)
   \<and> unsup_warmup 50 (1 / 2) 100 = Inr 1
   \<and> unsup_warmup 80 (1 / 2) 100 = Inr 1"
proof -
  have half: "unsup_warmup 25 (1 / 2) 100 = Inr (1 / 2)"
    by (simp add: unsup_warmup_def np_clip_def)
  from unsup_warmup_ramp [of "1 / 2" 100] half show ?thesis by simp
qed

lemma then_do_Inr: "m st = (Inr x, st') \<Longrightarrow> then_do m f st = f x st'"
  by (simp add: then_do_def)

lemma then_do_Inl: "m st = (Inl e, st') \<Longrightarrow> then_do m f st = (Inl e, st')"
  by (simp add: then_do_def)

lemma model_log [simp]: "model (log ev st) = model st"
  by (simp add: log_def)

lemma bn_frozen_log [simp]: "bn_frozen (log ev st) = bn_frozen st"
  by (simp add: log_def)

lemma lambda_u_log [simp]: "lambda_u (log ev st) = lambda_u st"
  by (simp add: log_def)

lemma history_log [simp]: "history (log ev st) = history st @ [ev]"
  by (simp add: log_def)

text \<open>
  Claim C4. In every iteration that reaches the loss computation (the counter does not
  exceed the budget, the divisor of the warmup is not zero, the three forward passes
  return), the composed loss is
  \<open>total_loss = sup_loss + lambda_u * unsup_loss * warmup_factor\<close> with
  \<open>warmup_factor = clip(it / (unsup_warmup_pos * num_train_iter), 0, 1)\<close>, where
  \<open>sup_loss\<close> and \<open>unsup_loss\<close> are the values of the two loss functions on the
  logits of this iteration.
\<close>

theorem train_losses_total:
  assumes "it st \<le> num_train_iter"
    and "unsup_warmup_pos * of_int num_train_iter \<noteq> 0"
    and "net (model st) x_lb = Inr logits_x_lb"
    and "net (model st) x_ulb_w1 = Inr logits_x_ulb_w1"
    and "net (model st) x_ulb_w2 = Inr logits_x_ulb_w2"
  shows "fst (train_losses num_train_iter unsup_warmup_pos net ce_loss consistency
                x_lb y_lb x_ulb_w1 x_ulb_w2 st)
         = Inr (Losses (ce_loss logits_x_lb y_lb) (consistency logits_x_ulb_w1 logits_x_ulb_w2)
                  (ce_loss logits_x_lb y_lb
                   + lambda_u st * consistency logits_x_ulb_w1 logits_x_ulb_w2
                     * min (max (of_int (it st) / (unsup_warmup_pos * of_int num_train_iter)) 0) 1))"
  using assms
  by (simp add: train_losses_def unsup_warmup_def np_clip_def then_do_def forward_def run_def
      freeze_bn_def unfreeze_bn_def Let_def)


theorem train_losses_total_witness:
  "it \<lparr>model = [], ddp = False, training = True, bn_frozen = False, ema_model = [],
        shadow = [], backup = [], optimizer = [], scheduler = [], it = 25, lambda_u = 2,
        history = []\<rparr> \<le> 100
   \<and> (1 / 2) * of_int 100 \<noteq> (0::real)
   \<and> fst (train_losses 100 (1 / 2) (\<lambda>params x. Inr x) (\<lambda>logits y. 1) (\<lambda>a b. 3)
             [[0]] [0] [[0]] [[0]]
             \<lparr>model = [], ddp = False, training = True, bn_frozen = False, ema_model = [],
              shadow = [], backup = [], optimizer = [], scheduler = [], it = 25, lambda_u = 2,
              history = []\<rparr>)
       = Inr (Losses 1 3 4)"
  using train_losses_total [of
      "\<lparr>model = [], ddp = False, training = True, bn_frozen = False, ema_model = [],
        shadow = [], backup = [], optimizer = [], scheduler = [], it = 25, lambda_u = 2,
        history = []\<rparr>"
      100 "1 / 2" "\<lambda>params x. Inr x" "[[0]]" "[[0]]" "[[0]]" "[[0]]" "[[0]]" "[[0]]"
      "\<lambda>logits y. 1" "\<lambda>a b. 3" "[0]"]
  by simp

text \<open>
  Claim C7. In every training iteration that starts with the statistics unfrozen, whatever
  the network does, the calls made up to the loss composition are an initial part of:
  forward pass of the labeled batch with statistics unfrozen, \<open>freeze_bn\<close>, forward
  passes of the two unlabeled views with statistics frozen, \<open>unfreeze_bn\<close>, loss
  composition; when the losses are composed, all of them were made in this order. So
  the freezing brackets exactly the two unlabeled forward passes, never the labeled
  one, and \<open>unfreeze_bn\<close> comes after the last unlabeled pass and before the loss
  composition.
\<close>

theorem train_losses_bn_bracket:
  assumes "\<not> bn_frozen st"
  shows "\<exists>new.
           history (snd (train_losses num_train_iter unsup_warmup_pos net ce_loss consistency
                           x_lb y_lb x_ulb_w1 x_ulb_w2 st)) = history st @ new
         \<and> prefix new [Forward Labeled False, FreezeBN, Forward UnlabeledW1 True,
                        Forward UnlabeledW2 True, UnfreezeBN, ComposeLoss]
         \<and> ((\<exists>s u t. fst (train_losses num_train_iter unsup_warmup_pos net ce_loss consistency
                              x_lb y_lb x_ulb_w1 x_ulb_w2 st) = Inr (Losses s u t))
              \<longrightarrow> new = [Forward Labeled False, FreezeBN, Forward UnlabeledW1 True,
                            Forward UnlabeledW2 True, UnfreezeBN, ComposeLoss])"
proof (cases "it st > num_train_iter")
  case True
  then show ?thesis by (simp add: train_losses_def)
next
  case running: False
  show ?thesis
  proof (cases "unsup_warmup (it st) unsup_warmup_pos num_train_iter")
    case (Inl e)
    then show ?thesis using running by (simp add: train_losses_def)
  next
    case (Inr warmup)
    show ?thesis
    proof (cases "net (model st) x_lb")
      case lb: (Inl e)
      then show ?thesis using running Inr assms
        by (simp add: train_losses_def then_do_def forward_def Let_def)
    next
      case lb: (Inr l0)
      show ?thesis
      proof (cases "net (model st) x_ulb_w1")
        case w1: (Inl e)
        then show ?thesis using running Inr assms lb
          by (simp add: train_losses_def then_do_def forward_def run_def freeze_bn_def Let_def)
      next
        case w1: (Inr l1)
        show ?thesis
        proof (cases "net (model st) x_ulb_w2")
          case w2: (Inl e)
          then show ?thesis using running Inr assms lb w1
            by (simp add: train_losses_def then_do_def forward_def run_def freeze_bn_def Let_def)
        next
          case w2: (Inr l2)
          then show ?thesis using running Inr assms lb w1
            by (simp add: train_losses_def then_do_def forward_def run_def freeze_bn_def
                unfreeze_bn_def Let_def)
        qed
      qed
    qed
  qed
qed

theorem train_losses_bn_bracket_witness:
  "\<not> bn_frozen \<lparr>model = [], ddp = False, training = True, bn_frozen = False, ema_model = [],
        shadow = [], backup = [], optimizer = [], scheduler = [], it = 25, lambda_u = 2,
        history = []\<rparr>
   \<and> history (snd (train_losses 100 (1 / 2) (\<lambda>params x. Inr x) (\<lambda>logits y. 1) (\<lambda>a b. 3)
             [[0]] [0] [[0]] [[0]]
             \<lparr>model = [], ddp = False, training = True, bn_frozen = False, ema_model = [],
              shadow = [], backup = [], optimizer = [], scheduler = [], it = 25, lambda_u = 2,
              history = []\<rparr>))
       = [Forward Labeled False, FreezeBN, Forward UnlabeledW1 True,
          Forward UnlabeledW2 True, UnfreezeBN, ComposeLoss]"
proof -
  let ?st = "\<lparr>model = [], ddp = False, training = True, bn_frozen = False, ema_model = [],
        shadow = [], backup = [], optimizer = [], scheduler = [], it = 25, lambda_u = 2,
        history = []\<rparr>"
  have run: "fst (train_losses 100 (1 / 2) (\<lambda>params x. Inr x) (\<lambda>logits y. 1) (\<lambda>a b. 3)
             [[0]] [0] [[0]] [[0]] ?st) = Inr (Losses 1 3 4)"
    by (simp add: train_losses_def unsup_warmup_def np_clip_def then_do_def forward_def run_def
      freeze_bn_def unfreeze_bn_def Let_def)
  from train_losses_bn_bracket [of ?st 100 "1 / 2" "\<lambda>params x. Inr x" "\<lambda>logits y. 1"
      "\<lambda>a b. 3" "[[0]]" "[0]" "[[0]]" "[[0]]"] run
  show ?thesis by auto
qed

text \<open>
  An iteration that starts with the statistics unfrozen and reaches its end leaves them
  unfrozen, so the next iteration starts as this one did.
\<close>

lemma train_losses_leaves_unfrozen:
  assumes "\<not> bn_frozen st"
    and "fst (train_losses num_train_iter unsup_warmup_pos net ce_loss consistency
                x_lb y_lb x_ulb_w1 x_ulb_w2 st) = Inr r"
  shows "\<not> bn_frozen (snd (train_losses num_train_iter unsup_warmup_pos net ce_loss consistency
                             x_lb y_lb x_ulb_w1 x_ulb_w2 st))"
  using assms
  by (auto simp: train_losses_def then_do_def forward_def run_def freeze_bn_def unfreeze_bn_def
      Let_def split: if_splits sum.splits)

section \<open>Best-accuracy tracker\<close>

text \<open>
  Claim C6, amended. At an evaluation iteration the tracker \<open>(best_eval_acc, best_it)\<close>
  is updated if and only if the top-1 accuracy is strictly greater than the previous best.
  On a process that passes the rank check (\<open>w\<close>), at an evaluation iteration other
  than the previous \<open>best_it\<close>, \<open>model_best\<close> is written if and only if that strict
  improvement occurred; a strict improvement on such a process always writes it; a
  process that fails the rank check never writes it.
\<close>

theorem eval_block_best:
  assumes "num_eval_iter \<noteq> 0" and "i mod num_eval_iter = 0"
    and "is_writer multiprocessing_distributed rank ngpus_per_node = Inr w"
  shows "\<exists>tr' saves.
           eval_block multiprocessing_distributed rank ngpus_per_node num_eval_iter i top1_acc tr
             = Inr (tr', saves)
         \<and> (top1_acc > best_eval_acc tr \<longrightarrow> best_eval_acc tr' = top1_acc \<and> best_it tr' = i)
         \<and> (\<not> top1_acc > best_eval_acc tr \<longrightarrow> tr' = tr)
         \<and> (w \<and> i \<noteq> best_it tr \<longrightarrow>
              (saves = [''model_best.pth''] \<longleftrightarrow> top1_acc > best_eval_acc tr))
         \<and> (w \<and> top1_acc > best_eval_acc tr \<longrightarrow> saves = [''model_best.pth''])
         \<and> (\<not> w \<longrightarrow> saves = [])
         \<and> (saves = [] \<or> saves = [''model_best.pth''])"
  using assms by (auto simp: eval_block_def Let_def)

theorem eval_block_best_witness:
  "(1000::int) \<noteq> 0 \<and> (2000::int) mod 1000 = 0 \<and> is_writer False 0 1 = Inr True
   \<and> eval_block False 0 1 1000 2000 (3 / 4) \<lparr>best_eval_acc = 1 / 2, best_it = 1000\<rparr>
       = Inr (\<lparr>best_eval_acc = 3 / 4, best_it = 2000\<rparr>, [''model_best.pth''])
   \<and> eval_block False 0 1 1000 2000 (1 / 2) \<lparr>best_eval_acc = 1 / 2, best_it = 1000\<rparr>
       = Inr (\<lparr>best_eval_acc = 1 / 2, best_it = 1000\<rparr>, [])"
proof -
  have w: "is_writer False 0 1 = Inr True" by (simp add: is_writer_def)
  have up: "eval_block False 0 1 1000 2000 (3 / 4) \<lparr>best_eval_acc = 1 / 2, best_it = 1000\<rparr>
       = Inr (\<lparr>best_eval_acc = 3 / 4, best_it = 2000\<rparr>, [''model_best.pth''])"
    using eval_block_best [of 1000 2000 False 0 1 True "3 / 4"
        "\<lparr>best_eval_acc = 1 / 2, best_it = 1000\<rparr>"] w
    by auto
  have tie: "eval_block False 0 1 1000 2000 (1 / 2) \<lparr>best_eval_acc = 1 / 2, best_it = 1000\<rparr>
       = Inr (\<lparr>best_eval_acc = 1 / 2, best_it = 1000\<rparr>, [])"
    by (simp add: eval_block_def is_writer_def)
  show ?thesis using w up tie by simp
qed

text \<open>
  Claim C6 as stated fails: in a distributed run the process of rank 1 on a node with two
  devices sees a strict improvement at iteration 1000, updates its tracker and writes no
  checkpoint.
\<close>

theorem eval_block_gate_counterexample:
  "eval_block True 1 2 1000 1000 (1 / 2) \<lparr>best_eval_acc = 0, best_it = 0\<rparr>
     = Inr (\<lparr>best_eval_acc = 1 / 2, best_it = 1000\<rparr>, [])"
  by (simp add: eval_block_def is_writer_def)

text \<open>
  The test \<open>self.it == best_it\<close> also holds at iteration 0 of a fresh run while
  \<open>best_it\<close> still has its initial value: an accuracy of 0, which ties the initial
  best, leaves the tracker unchanged and \<open>model_best\<close> is written all the same.
\<close>

lemma eval_block_first_iteration_tie:
  "eval_block False 0 1 1000 0 0 initial_tracker = Inr (initial_tracker, [''model_best.pth''])"
  by (simp add: eval_block_def is_writer_def initial_tracker_def)

section \<open>Evaluation under the shadow parameters\<close>

lemma eval_loop_frame:
  "\<exists>n. snd (eval_loop net cross_entropy loader acc st)
         = st\<lparr>history := history st @ replicate n (Forward EvalBatch (bn_frozen st))\<rparr>"
proof (induction loader arbitrary: acc st)
  case Nil
  have "st = st\<lparr>history := history st @ replicate 0 (Forward EvalBatch (bn_frozen st))\<rparr>"
    by simp
  then show ?case by (metis eval_loop.simps(1) snd_conv)
next
  case (Cons b rest)
  obtain x y where b: "b = (x, y)" by (cases b)
  let ?ev = "Forward EvalBatch (bn_frozen st)"
  let ?st1 = "log ?ev st"
  have one: "?st1 = st\<lparr>history := history st @ replicate 1 ?ev\<rparr>"
    by (simp add: log_def)
  show ?case
  proof (cases "net (model st) x")
    case (Inl e)
    then have "snd (eval_loop net cross_entropy (b # rest) acc st) = ?st1"
      by (simp add: b forward_def Let_def)
    then show ?thesis using one by metis
  next
    case logits: (Inr logits)
    show ?thesis
    proof (cases "cross_entropy logits y")
      case (Inl e)
      then have "snd (eval_loop net cross_entropy (b # rest) acc st) = ?st1"
        using logits by (simp add: b forward_def Let_def)
      then show ?thesis using one by metis
    next
      case (Inr loss)
      let ?acc = "acc\<lparr>total_num := total_num acc + real (length x),
                      y_true := y_true acc @ y,
                      all_logits := all_logits acc @ logits,
                      total_loss_acc := total_loss_acc acc + loss * real (length x)\<rparr>"
      have step: "eval_loop net cross_entropy (b # rest) acc st
                  = eval_loop net cross_entropy rest ?acc ?st1"
        using logits Inr by (simp add: b forward_def Let_def)
      from Cons.IH [of ?acc ?st1] obtain n where
        n: "snd (eval_loop net cross_entropy rest ?acc ?st1)
            = ?st1\<lparr>history := history ?st1 @ replicate n (Forward EvalBatch (bn_frozen ?st1))\<rparr>"
        by blast
      have "?st1\<lparr>history := history ?st1 @ replicate n (Forward EvalBatch (bn_frozen ?st1))\<rparr>
            = st\<lparr>history := history st @ replicate (Suc n) ?ev\<rparr>"
        by (simp add: log_def)
      then show ?thesis using step n by metis
    qed
  qed
qed

text \<open>
  Claim C1, amended. In every execution of \<open>evaluate\<close> in which the loop over the
  evaluation loader and the metric computation complete without an exception, \<open>restore\<close>
  is executed after \<open>apply_shadow\<close> and after the last forward pass, before \<open>evaluate\<close>
  terminates, and the live parameters are those from before the call.
\<close>

theorem evaluate_restores:
  assumes "eval_loop net cross_entropy eval_loader
             \<lparr>total_loss_acc = 0, total_num = 0, y_true = [], all_logits = []\<rparr>
             (apply_shadow (model_eval st)) = (Inr acc, st2)"
    and "metrics (y_true acc) (all_logits acc) = Inr (top1, top5)"
  shows "model (snd (evaluate net cross_entropy metrics eval_loader st)) = model st
       \<and> training (snd (evaluate net cross_entropy metrics eval_loader st))
       \<and> (\<exists>n. history (snd (evaluate net cross_entropy metrics eval_loader st))
               = history st @ [ModelEval, ApplyShadow]
                 @ replicate n (Forward EvalBatch (bn_frozen st)) @ [Restore, ModelTrain])"
proof -
  let ?st1 = "apply_shadow (model_eval st)"
  let ?acc0 = "\<lparr>total_loss_acc = 0, total_num = 0, y_true = [], all_logits = []\<rparr>"
  from eval_loop_frame [of net cross_entropy eval_loader ?acc0 ?st1] assms(1)
  obtain n where st2: "st2 = ?st1\<lparr>history := history ?st1 @ replicate n (Forward EvalBatch (bn_frozen ?st1))\<rparr>"
    by auto
  have final: "snd (evaluate net cross_entropy metrics eval_loader st) = model_train (restore st2)"
    using assms by (simp add: evaluate_def Let_def)
  have m: "model (model_train (restore st2)) = model st"
    by (simp add: st2 model_train_def restore_def apply_shadow_def model_eval_def log_def)
  have t: "training (model_train (restore st2))"
    by (simp add: model_train_def log_def)
  have h: "history (model_train (restore st2))
           = history st @ [ModelEval, ApplyShadow]
             @ replicate n (Forward EvalBatch (bn_frozen st)) @ [Restore, ModelTrain]"
    by (simp add: st2 model_train_def restore_def apply_shadow_def model_eval_def log_def)
  show ?thesis using final m t h by auto
qed


theorem evaluate_restores_witness:
  "eval_loop (\<lambda>params x. Inr x) (\<lambda>logits y. Inr 1) [([[0]], [0])]
       \<lparr>total_loss_acc = 0, total_num = 0, y_true = [], all_logits = []\<rparr>
       (apply_shadow (model_eval demo_model))
     = (Inr \<lparr>total_loss_acc = 1, total_num = 1, y_true = [0], all_logits = [[0]]\<rparr>,
        log (Forward EvalBatch False) (apply_shadow (model_eval demo_model)))
   \<and> (\<lambda>yt lg. Inr (1, 1)) [0::nat] [[0::real]] = (Inr (1, 1) :: py_error + real \<times> real)
   \<and> model (snd (evaluate (\<lambda>params x. Inr x) (\<lambda>logits y. Inr 1) (\<lambda>yt lg. Inr (1, 1))
                    [([[0]], [0])] demo_model)) = [(''w'', [1])]
   \<and> history (snd (evaluate (\<lambda>params x. Inr x) (\<lambda>logits y. Inr 1) (\<lambda>yt lg. Inr (1, 1))
                    [([[0]], [0])] demo_model))
       = [ModelEval, ApplyShadow, Forward EvalBatch False, Restore, ModelTrain]"
proof -
  have loop: "eval_loop (\<lambda>params x. Inr x) (\<lambda>logits y. Inr 1) [([[0]], [0])]
       \<lparr>total_loss_acc = 0, total_num = 0, y_true = [], all_logits = []\<rparr>
       (apply_shadow (model_eval demo_model))
     = (Inr \<lparr>total_loss_acc = 1, total_num = 1, y_true = [0], all_logits = [[0]]\<rparr>,
        log (Forward EvalBatch False) (apply_shadow (model_eval demo_model)))"
    by (simp add: forward_def Let_def apply_shadow_def model_eval_def log_def demo_model_def)
  have hist: "history (snd (evaluate (\<lambda>params x. Inr x) (\<lambda>logits y. Inr 1) (\<lambda>yt lg. Inr (1, 1))
                    [([[0]], [0])] demo_model))
       = [ModelEval, ApplyShadow, Forward EvalBatch False, Restore, ModelTrain]"
    by (simp add: evaluate_def forward_def Let_def apply_shadow_def model_eval_def log_def
        restore_def model_train_def demo_model_def)
  from evaluate_restores [OF loop, of "\<lambda>yt lg. Inr (1, 1)" 1 1] loop hist
  show ?thesis by (simp add: demo_model_def)
qed

text \<open>
  Claim C1 as stated fails: when the forward pass of the first batch raises, \<open>evaluate\<close>
  terminates with that exception; \<open>restore\<close> is not in the history and the live
  parameters are the shadow values.
\<close>

theorem evaluate_raise_counterexample:
  "evaluate (\<lambda>params x. Inl RuntimeError) (\<lambda>logits y. Inr 1) (\<lambda>yt lg. Inr (1, 1))
     [([[0]], [0])] demo_model
   = (Inl RuntimeError,
      demo_model\<lparr>model := [(''w'', [2])], backup := [(''w'', [1])], training := False,
                 history := [ModelEval, ApplyShadow, Forward EvalBatch False]\<rparr>)"
  by (simp add: evaluate_def forward_def Let_def apply_shadow_def model_eval_def log_def
      demo_model_def)

text \<open>
  The same for every exception of a forward pass or of the loss: the history ends with
  the forward passes, and the object is the one \<open>apply_shadow\<close> produced.
\<close>

lemma evaluate_raise_skips_restore:
  assumes "fst (eval_loop net cross_entropy eval_loader
                  \<lparr>total_loss_acc = 0, total_num = 0, y_true = [], all_logits = []\<rparr>
                  (apply_shadow (model_eval st))) = Inl e"
  shows "\<exists>n. evaluate net cross_entropy metrics eval_loader st
           = (Inl e, (apply_shadow (model_eval st))
                \<lparr>history := history st @ [ModelEval, ApplyShadow]
                             @ replicate n (Forward EvalBatch (bn_frozen st))\<rparr>)"
proof -
  let ?st1 = "apply_shadow (model_eval st)"
  let ?acc0 = "\<lparr>total_loss_acc = 0, total_num = 0, y_true = [], all_logits = []\<rparr>"
  obtain st2 where run: "eval_loop net cross_entropy eval_loader ?acc0 ?st1 = (Inl e, st2)"
    using assms by (cases "eval_loop net cross_entropy eval_loader ?acc0 ?st1") auto
  from eval_loop_frame [of net cross_entropy eval_loader ?acc0 ?st1] run
  obtain n where st2: "st2 = ?st1\<lparr>history := history ?st1 @ replicate n (Forward EvalBatch (bn_frozen ?st1))\<rparr>"
    by auto
  have "evaluate net cross_entropy metrics eval_loader st = (Inl e, st2)"
    using run by (simp add: evaluate_def Let_def)
  moreover have "st2 = ?st1\<lparr>history := history st @ [ModelEval, ApplyShadow]
                             @ replicate n (Forward EvalBatch (bn_frozen st))\<rparr>"
    by (simp add: st2 apply_shadow_def model_eval_def log_def)
  ultimately show ?thesis by blast
qed

section \<open>Consistency loss\<close>

lemma sum_list_map2_nth:
  "length r = length s \<Longrightarrow> sum_list (map2 f r s) = (\<Sum>j<length r. f (r ! j) (s ! j))"
proof -
  assume len: "length r = length s"
  have "sum_list (map2 f r s) = (\<Sum>j = 0..<length (map2 f r s). map2 f r s ! j)"
    by (rule sum_list_sum_nth)
  also have "\<dots> = (\<Sum>j = 0..<length r. f (r ! j) (s ! j))"
    using len by (intro sum.cong) auto
  finally show ?thesis by (simp add: atLeast0LessThan)
qed

lemma sum_list_map_nth:
  "sum_list (map f xs) = (\<Sum>i<length xs. f (xs ! i))"
proof -
  have "sum_list (map f xs) = (\<Sum>i = 0..<length (map f xs). map f xs ! i)"
    by (rule sum_list_sum_nth)
  also have "\<dots> = (\<Sum>i = 0..<length xs. f (xs ! i))"
    by (intro sum.cong) auto
  finally show ?thesis by (simp add: atLeast0LessThan)
qed

lemma length_softmax [simp]: "length (softmax z) = length z"
  by (simp add: softmax_def)

lemma nth_softmax:
  "j < length z \<Longrightarrow> softmax z ! j = exp (z ! j) / (\<Sum>k<length z. exp (z ! k))"
  by (simp add: softmax_def sum_list_map_nth)

lemma squared_error_softmax:
  assumes "length t = length z"
  shows "squared_error (softmax z) t
         = (\<Sum>j<length z. (exp (z ! j) / (\<Sum>k<length z. exp (z ! k)) - t ! j)\<^sup>2)"
proof -
  have "squared_error (softmax z) t = (\<Sum>j<length (softmax z). (softmax z ! j - t ! j)\<^sup>2)"
    unfolding squared_error_def using assms by (intro sum_list_map2_nth) simp
  also have "\<dots> = (\<Sum>j<length z. (exp (z ! j) / (\<Sum>k<length z. exp (z ! k)) - t ! j)\<^sup>2)"
    by (intro sum.cong) (simp_all add: nth_softmax)
  finally show ?thesis .
qed

text \<open>
  The mean-squared error against the softmax of a batch of logits, entry by entry.
\<close>

lemma mse_loss_softmax_entries:
  assumes "length y = length logits_w"
    and "\<forall>i<length logits_w. length (y ! i) = length (logits_w ! i)"
  shows "mse_loss (map softmax logits_w) y
         = (\<Sum>i<length logits_w. \<Sum>j<length (logits_w ! i).
              (exp (logits_w ! i ! j) / (\<Sum>k<length (logits_w ! i). exp (logits_w ! i ! k))
               - y ! i ! j)\<^sup>2)
           / real (\<Sum>i<length logits_w. length (logits_w ! i))"
proof -
  have "sum_list (map2 squared_error (map softmax logits_w) y)
        = (\<Sum>i<length (map softmax logits_w). squared_error (map softmax logits_w ! i) (y ! i))"
    using assms(1) by (intro sum_list_map2_nth) simp
  also have "\<dots> = (\<Sum>i<length logits_w. \<Sum>j<length (logits_w ! i).
              (exp (logits_w ! i ! j) / (\<Sum>k<length (logits_w ! i). exp (logits_w ! i ! k))
               - y ! i ! j)\<^sup>2)"
    using assms(2) by (intro sum.cong) (simp_all add: squared_error_softmax)
  finally have num: "sum_list (map2 squared_error (map softmax logits_w) y)
        = (\<Sum>i<length logits_w. \<Sum>j<length (logits_w ! i).
              (exp (logits_w ! i ! j) / (\<Sum>k<length (logits_w ! i). exp (logits_w ! i ! k))
               - y ! i ! j)\<^sup>2)" .
  have "sum_list (map length (map softmax logits_w)) = sum_list (map length logits_w)"
    by (simp add: comp_def)
  also have "\<dots> = (\<Sum>i<length logits_w. length (logits_w ! i))"
    by (rule sum_list_map_nth)
  finally have den: "sum_list (map length (map softmax logits_w))
        = (\<Sum>i<length logits_w. length (logits_w ! i))" .
  show ?thesis by (simp only: mse_loss_def num den)
qed

lemma pimodel_utils_consistency_loss_entries:
  assumes len: "length w2 = length w1"
    and rows: "\<forall>i<length w1. length (w2 ! i) = length (w1 ! i)"
  shows "pimodel_utils_consistency_loss w1 w2
         = (\<Sum>i<length w1. \<Sum>j<length (w1 ! i).
              (exp (w1 ! i ! j) / (\<Sum>k<length (w1 ! i). exp (w1 ! i ! k))
               - exp (w2 ! i ! j) / (\<Sum>k<length (w2 ! i). exp (w2 ! i ! k)))\<^sup>2)
           / real (\<Sum>i<length w1. length (w1 ! i))"
proof -
  have "pimodel_utils_consistency_loss w1 w2
        = (\<Sum>i<length w1. \<Sum>j<length (w1 ! i).
              (exp (w1 ! i ! j) / (\<Sum>k<length (w1 ! i). exp (w1 ! i ! k))
               - map softmax w2 ! i ! j)\<^sup>2)
           / real (\<Sum>i<length w1. length (w1 ! i))"
    unfolding pimodel_utils_consistency_loss_def
    using len rows by (intro mse_loss_softmax_entries) simp_all
  also have "(\<Sum>i<length w1. \<Sum>j<length (w1 ! i).
              (exp (w1 ! i ! j) / (\<Sum>k<length (w1 ! i). exp (w1 ! i ! k))
               - map softmax w2 ! i ! j)\<^sup>2)
        = (\<Sum>i<length w1. \<Sum>j<length (w1 ! i).
              (exp (w1 ! i ! j) / (\<Sum>k<length (w1 ! i). exp (w1 ! i ! k))
               - exp (w2 ! i ! j) / (\<Sum>k<length (w2 ! i). exp (w2 ! i ! k)))\<^sup>2)"
  proof (intro sum.cong refl)
    fix i j
    assume i: "i \<in> {..<length w1}" and j: "j \<in> {..<length (w1 ! i)}"
    from i len have i2: "i < length w2" by simp
    from i j rows have j2: "j < length (w2 ! i)" by simp
    from i2 j2 show "(exp (w1 ! i ! j) / (\<Sum>k<length (w1 ! i). exp (w1 ! i ! k))
               - map softmax w2 ! i ! j)\<^sup>2
        = (exp (w1 ! i ! j) / (\<Sum>k<length (w1 ! i). exp (w1 ! i ! k))
               - exp (w2 ! i ! j) / (\<Sum>k<length (w2 ! i). exp (w2 ! i ! k)))\<^sup>2"
      by (simp add: nth_softmax)
  qed
  finally show ?thesis .
qed

text \<open>
  The function \<open>consistency_loss\<close> of \<open>remixmatch_utils\<close> applies the softmax to its
  first operand and takes the second as the target distribution; the consistency loss of
  the two views is its value when the target is the softmax output of the second view.
\<close>

lemma pimodel_utils_consistency_loss_remixmatch:
  "pimodel_utils_consistency_loss w1 w2 = consistency_loss w1 (map softmax w2)"
  by (simp add: pimodel_utils_consistency_loss_def consistency_loss_def)

text \<open>
  Claim C5. In every iteration that reaches the loss computation, with \<open>w1\<close> and
  \<open>w2\<close> the logits that the network returns on the two weakly-augmented views of the
  unlabeled batch (two tensors of the same shape), the unsupervised loss of the iteration
  is the mean, over all entries, of the squared difference between the softmax of \<open>w1\<close>
  and the softmax of \<open>w2\<close>: the softmax is applied to both operands, and no label or
  pseudo-label enters the value.
\<close>

theorem train_unsup_loss_softmax_mse:
  assumes "it st \<le> num_train_iter"
    and "unsup_warmup_pos * of_int num_train_iter \<noteq> 0"
    and "net (model st) x_lb = Inr logits_x_lb"
    and "net (model st) x_ulb_w1 = Inr w1"
    and "net (model st) x_ulb_w2 = Inr w2"
    and "length w2 = length w1"
    and "\<forall>i<length w1. length (w2 ! i) = length (w1 ! i)"
  shows "\<exists>s t. fst (train_losses num_train_iter unsup_warmup_pos net ce_loss
                      pimodel_utils_consistency_loss x_lb y_lb x_ulb_w1 x_ulb_w2 st)
         = Inr (Losses s
                  ((\<Sum>i<length w1. \<Sum>j<length (w1 ! i).
                      (exp (w1 ! i ! j) / (\<Sum>k<length (w1 ! i). exp (w1 ! i ! k))
                       - exp (w2 ! i ! j) / (\<Sum>k<length (w2 ! i). exp (w2 ! i ! k)))\<^sup>2)
                   / real (\<Sum>i<length w1. length (w1 ! i)))
                  t)"
proof -
  have "fst (train_losses num_train_iter unsup_warmup_pos net ce_loss
               pimodel_utils_consistency_loss x_lb y_lb x_ulb_w1 x_ulb_w2 st)
        = Inr (Losses (ce_loss logits_x_lb y_lb) (pimodel_utils_consistency_loss w1 w2)
                 (ce_loss logits_x_lb y_lb
                  + lambda_u st * pimodel_utils_consistency_loss w1 w2
                    * min (max (of_int (it st) / (unsup_warmup_pos * of_int num_train_iter)) 0) 1))"
    using assms(1-5)
    by (simp add: train_losses_def unsup_warmup_def np_clip_def then_do_def forward_def run_def
        freeze_bn_def unfreeze_bn_def Let_def)
  then show ?thesis
    by (simp only: pimodel_utils_consistency_loss_entries [OF assms(6) assms(7)]) blast
qed

theorem train_unsup_loss_softmax_mse_witness:
  "it \<lparr>model = [], ddp = False, training = True, bn_frozen = False, ema_model = [],
        shadow = [], backup = [], optimizer = [], scheduler = [], it = 25, lambda_u = 2,
        history = []\<rparr> \<le> 100
   \<and> (1 / 2) * of_int 100 \<noteq> (0::real)
   \<and> length [[ln 3, 0 :: real]] = length [[0, 0 :: real]]
   \<and> length ([[ln 3, 0 :: real]] ! 0) = length ([[0, 0 :: real]] ! 0)
   \<and> fst (train_losses 100 (1 / 2) (\<lambda>params x. Inr x) (\<lambda>logits y. 1)
             pimodel_utils_consistency_loss [[0]] [0] [[0, 0]] [[ln 3, 0]]
             \<lparr>model = [], ddp = False, training = True, bn_frozen = False, ema_model = [],
              shadow = [], backup = [], optimizer = [], scheduler = [], it = 25, lambda_u = 2,
              history = []\<rparr>)
       = Inr (Losses 1 (1 / 16) (17 / 16))"
proof -
  let ?st = "\<lparr>model = [], ddp = False, training = True, bn_frozen = False, ema_model = [],
        shadow = [], backup = [], optimizer = [], scheduler = [], it = 25, lambda_u = 2,
        history = []\<rparr>"
  let ?run = "fst (train_losses 100 (1 / 2) (\<lambda>params x. Inr x) (\<lambda>logits y. 1)
             pimodel_utils_consistency_loss [[0]] [0] [[0, 0]] [[ln 3, 0]] ?st)"
  have rows: "\<forall>i<length [[0, 0 :: real]]. length ([[ln 3, 0 :: real]] ! i) = length ([[0, 0 :: real]] ! i)"
    by simp
  have "\<exists>s t. ?run = Inr (Losses s (1 / 16) t)"
    using train_unsup_loss_softmax_mse [of ?st 100 "1 / 2" "\<lambda>params x. Inr x" "[[0]]" "[[0]]"
        "[[0, 0]]" "[[0, 0]]" "[[ln 3, 0]]" "[[ln 3, 0]]" "\<lambda>logits y. 1" "[0]"] rows
    by (simp add: lessThan_Suc power2_eq_square numeral_2_eq_2)
  then obtain s t where r: "?run = Inr (Losses s (1 / 16) t)" by blast
  have "?run = Inr (Losses 1 (pimodel_utils_consistency_loss [[0, 0]] [[ln 3, 0]])
                    (1 + 2 * pimodel_utils_consistency_loss [[0, 0]] [[ln 3, 0]] * (1 / 2)))"
    by (simp add: train_losses_def unsup_warmup_def np_clip_def then_do_def forward_def run_def
        freeze_bn_def unfreeze_bn_def Let_def)
  with r have "pimodel_utils_consistency_loss [[0, 0]] [[ln 3, 0]] = 1 / 16"
    and "?run = Inr (Losses 1 (1 / 16) (1 + 2 * (1 / 16) * (1 / 2)))"
    by simp_all
  then show ?thesis by simp
qed

section \<open>\<open>mixup_one_target\<close>\<close>

lemma rows_at_in_range:
  "set index \<subseteq> {..<length t} \<Longrightarrow> rows_at t index = Inr (map (\<lambda>i. t ! i) index)"
  by (auto simp: rows_at_def list_all_iff)

lemma length_mix: "length p = length x \<Longrightarrow> length (add (scale a x) (scale b p)) = length x"
  by (simp add: add_def scale_def)

lemma length_mix_row:
  "i < length x \<Longrightarrow> length p = length x \<Longrightarrow> length (p ! i) = length (x ! i) \<Longrightarrow>
   length (add (scale a x) (scale b p) ! i) = length (x ! i)"
  by (simp add: add_def scale_def)

lemma nth_mix:
  "i < length x \<Longrightarrow> length p = length x \<Longrightarrow> length (p ! i) = length (x ! i) \<Longrightarrow>
   j < length (x ! i) \<Longrightarrow>
   add (scale a x) (scale b p) ! i ! j = a * x ! i ! j + b * p ! i ! j"
  by (simp add: add_def scale_def)

lemma mix_identity:
  assumes "length p = length x" and "\<forall>i<length x. length (p ! i) = length (x ! i)"
  shows "add (scale 1 x) (scale 0 p) = x"
proof (rule nth_equalityI)
  show "length (add (scale 1 x) (scale 0 p)) = length x"
    using assms(1) by (rule length_mix)
next
  fix i
  assume "i < length (add (scale 1 x) (scale 0 p))"
  then have i: "i < length x" using assms(1) by (simp add: length_mix)
  then have row: "length (p ! i) = length (x ! i)" using assms(2) by simp
  show "add (scale 1 x) (scale 0 p) ! i = x ! i"
  proof (rule nth_equalityI)
    show "length (add (scale 1 x) (scale 0 p) ! i) = length (x ! i)"
      using i assms(1) row by (rule length_mix_row)
  next
    fix j
    assume "j < length (add (scale 1 x) (scale 0 p) ! i)"
    then have j: "j < length (x ! i)" using i assms(1) row by (simp add: length_mix_row)
    show "add (scale 1 x) (scale 0 p) ! i ! j = x ! i ! j"
      using nth_mix [OF i assms(1) row j, of 1 0] by simp
  qed
qed

lemma permutation_length:
  "distinct index \<Longrightarrow> set index = {..<n} \<Longrightarrow> length index = n"
  using distinct_card [of index] by simp

text \<open>
  Claim C9. For every pair of batches \<open>x\<close> and \<open>y\<close> with the same number of rows (each
  a rectangular tensor) and every permutation \<open>index\<close> of the batch positions that
  \<open>torch.randperm\<close> can return, \<open>mixup_one_target\<close> returns; if \<open>alpha \<le> 0\<close> then
  \<open>lam = 1\<close> and the mixed outputs are exactly \<open>x\<close> and \<open>y\<close>; if \<open>alpha > 0\<close> and
  \<open>is_bias\<close> then \<open>lam \<ge> 1 / 2\<close>; in all cases the mixed outputs are, entry by entry,
  \<open>lam * x + (1 - lam) * x[index]\<close> and \<open>lam * y + (1 - lam) * y[index]\<close> for the same
  \<open>index\<close>, a convex combination since \<open>lam\<close> is in \<open>[0, 1]\<close> whenever the Beta draw is.
\<close>

theorem mixup_one_target_convex:
  assumes "distinct index" and "set index = {..<length x}" and "length y = length x"
    and "list_all (\<lambda>r. length r = d) x" and "list_all (\<lambda>r. length r = c) y"
  shows "\<exists>mixed_x mixed_y lam.
           mixup_one_target x y alpha is_bias beta_draw index = Inr (mixed_x, mixed_y, lam)
         \<and> (alpha \<le> 0 \<longrightarrow> lam = 1 \<and> mixed_x = x \<and> mixed_y = y)
         \<and> (alpha > 0 \<and> is_bias \<longrightarrow> lam \<ge> 1 / 2)
         \<and> (0 \<le> beta_draw \<and> beta_draw \<le> 1 \<longrightarrow> 0 \<le> lam \<and> lam \<le> 1)
         \<and> length mixed_x = length x \<and> length mixed_y = length y
         \<and> (\<forall>i<length x. length (mixed_x ! i) = d
               \<and> (\<forall>j<d. mixed_x ! i ! j = lam * x ! i ! j + (1 - lam) * x ! (index ! i) ! j))
         \<and> (\<forall>i<length y. length (mixed_y ! i) = c
               \<and> (\<forall>j<c. mixed_y ! i ! j = lam * y ! i ! j + (1 - lam) * y ! (index ! i) ! j))"
proof -
  define lam0 where "lam0 = (if alpha > 0 then beta_draw else 1)"
  define lam where "lam = (if is_bias then max lam0 (1 - lam0) else lam0)"
  define xp where "xp = map (\<lambda>i. x ! i) index"
  define yp where "yp = map (\<lambda>i. y ! i) index"
  define mixed_x where "mixed_x = add (scale lam x) (scale (1 - lam) xp)"
  define mixed_y where "mixed_y = add (scale lam y) (scale (1 - lam) yp)"
  have len_index: "length index = length x"
    using assms(1,2) by (rule permutation_length)
  have in_range: "index ! i < length x" if "i < length x" for i
  proof -
    have "index ! i \<in> set index" using that len_index by simp
    then show ?thesis using assms(2) by simp
  qed
  have rows_x: "rows_at x index = Inr xp"
    unfolding xp_def using assms(2) by (intro rows_at_in_range) simp
  have rows_y: "rows_at y index = Inr yp"
    unfolding yp_def using assms(2,3) by (intro rows_at_in_range) simp
  have run: "mixup_one_target x y alpha is_bias beta_draw index = Inr (mixed_x, mixed_y, lam)"
    by (simp add: mixup_one_target_def Let_def rows_x rows_y mixed_x_def mixed_y_def lam_def lam0_def)
  have len_xp: "length xp = length x" by (simp add: xp_def len_index)
  have len_yp: "length yp = length y" by (simp add: yp_def len_index assms(3))
  have row_x: "length (x ! i) = d" if "i < length x" for i
    using assms(4) that by (simp add: list_all_length)
  have row_y: "length (y ! i) = c" if "i < length y" for i
    using assms(5) that by (simp add: list_all_length)
  have xp_nth: "xp ! i = x ! (index ! i)" if "i < length x" for i
    using that by (simp add: xp_def len_index)
  have yp_nth: "yp ! i = y ! (index ! i)" if "i < length y" for i
    using that by (simp add: yp_def len_index assms(3))
  have row_xp: "length (xp ! i) = length (x ! i)" if "i < length x" for i
    using that in_range [OF that] by (simp add: xp_nth row_x)
  have row_yp: "length (yp ! i) = length (y ! i)" if "i < length y" for i
    using that in_range [of i] by (simp add: yp_nth row_y assms(3))
  have one: "lam = 1" if "alpha \<le> 0"
    using that by (simp add: lam_def lam0_def)
  have id_x: "mixed_x = x" if "alpha \<le> 0"
    using mix_identity [OF len_xp] row_xp one [OF that] by (simp add: mixed_x_def)
  have id_y: "mixed_y = y" if "alpha \<le> 0"
    using mix_identity [OF len_yp] row_yp one [OF that] by (simp add: mixed_y_def)
  have bias: "lam \<ge> 1 / 2" if "alpha > 0 \<and> is_bias"
    using that by (auto simp: lam_def max_def)
  have unit: "0 \<le> lam \<and> lam \<le> 1" if "0 \<le> beta_draw \<and> beta_draw \<le> 1"
    using that by (auto simp: lam_def lam0_def max_def)
  have len_mx: "length mixed_x = length x"
    unfolding mixed_x_def using len_xp by (rule length_mix)
  have len_my: "length mixed_y = length y"
    unfolding mixed_y_def using len_yp by (rule length_mix)
  have conv_x: "length (mixed_x ! i) = d
      \<and> (\<forall>j<d. mixed_x ! i ! j = lam * x ! i ! j + (1 - lam) * x ! (index ! i) ! j)"
    if i: "i < length x" for i
  proof
    show "length (mixed_x ! i) = d"
      unfolding mixed_x_def using length_mix_row [OF i len_xp row_xp [OF i]] row_x [OF i] by simp
    show "\<forall>j<d. mixed_x ! i ! j = lam * x ! i ! j + (1 - lam) * x ! (index ! i) ! j"
    proof (intro allI impI)
      fix j assume "j < d"
      then have j: "j < length (x ! i)" using row_x [OF i] by simp
      show "mixed_x ! i ! j = lam * x ! i ! j + (1 - lam) * x ! (index ! i) ! j"
        unfolding mixed_x_def using nth_mix [OF i len_xp row_xp [OF i] j] xp_nth [OF i] by simp
    qed
  qed
  have conv_y: "length (mixed_y ! i) = c
      \<and> (\<forall>j<c. mixed_y ! i ! j = lam * y ! i ! j + (1 - lam) * y ! (index ! i) ! j)"
    if i: "i < length y" for i
  proof
    show "length (mixed_y ! i) = c"
      unfolding mixed_y_def using length_mix_row [OF i len_yp row_yp [OF i]] row_y [OF i] by simp
    show "\<forall>j<c. mixed_y ! i ! j = lam * y ! i ! j + (1 - lam) * y ! (index ! i) ! j"
    proof (intro allI impI)
      fix j assume "j < c"
      then have j: "j < length (y ! i)" using row_y [OF i] by simp
      show "mixed_y ! i ! j = lam * y ! i ! j + (1 - lam) * y ! (index ! i) ! j"
        unfolding mixed_y_def using nth_mix [OF i len_yp row_yp [OF i] j] yp_nth [OF i] by simp
    qed
  qed
  show ?thesis
  proof (intro exI conjI impI allI)
    show "mixup_one_target x y alpha is_bias beta_draw index = Inr (mixed_x, mixed_y, lam)"
      by (rule run)
    show "lam = 1" if "alpha \<le> 0" using that by (rule one)
    show "mixed_x = x" if "alpha \<le> 0" using that by (rule id_x)
    show "mixed_y = y" if "alpha \<le> 0" using that by (rule id_y)
    show "1 / 2 \<le> lam" if "alpha > 0 \<and> is_bias" using that by (rule bias)
    show "0 \<le> lam" if "0 \<le> beta_draw \<and> beta_draw \<le> 1" using unit [OF that] by simp
    show "lam \<le> 1" if "0 \<le> beta_draw \<and> beta_draw \<le> 1" using unit [OF that] by simp
    show "length mixed_x = length x" by (rule len_mx)
    show "length mixed_y = length y" by (rule len_my)
    show "length (mixed_x ! i) = d" if "i < length x" for i using conv_x [OF that] by simp
    show "mixed_x ! i ! j = lam * x ! i ! j + (1 - lam) * x ! (index ! i) ! j"
      if "i < length x" "j < d" for i j using conv_x [OF that(1)] that(2) by simp
    show "length (mixed_y ! i) = c" if "i < length y" for i using conv_y [OF that] by simp
    show "mixed_y ! i ! j = lam * y ! i ! j + (1 - lam) * y ! (index ! i) ! j"
      if "i < length y" "j < c" for i j using conv_y [OF that(1)] that(2) by simp
  qed
qed

theorem mixup_one_target_convex_witness:
  "distinct [1, 0 :: nat] \<and> set [1, 0 :: nat] = {..<length [[1, 2], [3, 4 :: real]]}
   \<and> length [[1, 0], [0, 1 :: real]] = length [[1, 2], [3, 4 :: real]]
   \<and> list_all (\<lambda>r. length r = 2) [[1, 2], [3, 4 :: real]]
   \<and> list_all (\<lambda>r. length r = 2) [[1, 0], [0, 1 :: real]]
   \<and> mixup_one_target [[1, 2], [3, 4]] [[1, 0], [0, 1]] 1 True (1 / 4) [1, 0]
       = Inr ([[3 / 2, 5 / 2], [5 / 2, 7 / 2]], [[3 / 4, 1 / 4], [1 / 4, 3 / 4]], 3 / 4)"
proof -
  have s: "set [1, 0 :: nat] = {..<length [[1, 2], [3, 4 :: real]]}" by auto
  have run: "mixup_one_target [[1, 2], [3, 4]] [[1, 0], [0, 1]] 1 True (1 / 4) [1, 0]
       = Inr ([[3 / 2, 5 / 2], [5 / 2, 7 / 2]], [[3 / 4, 1 / 4], [1 / 4, 3 / 4]], 3 / 4)"
    by (simp add: mixup_one_target_def rows_at_def add_def scale_def Let_def)
  from mixup_one_target_convex [of "[1, 0]" "[[1, 2], [3, 4]]" "[[1, 0], [0, 1]]" 2 2
      1 True "1 / 4"] s run
  show ?thesis by simp
qed

section \<open>Saving and loading checkpoints\<close>

text \<open>
  \<^verbatim>\<open>"module.submodule.weight".replace("module.", "")\<close> removes both occurrences.
\<close>

lemma strip_submodule:
  "replace_all ''module.'' [] ''module.submodule.weight'' = ''subweight''"
  by simp

lemma save_replicated:
  "snd (save_model ''latest_model.pth'' ''saved/run'' replicated_model Map.empty)
     ''saved/run/latest_model.pth'' = Some replicated_checkpoint"
  by (simp add: save_model_def os_path_join_def Let_def apply_shadow_def restore_def
      model_eval_def model_train_def log_def replicated_model_def replicated_checkpoint_def)

text \<open>
  Claim C3 at a checkpoint saved from a replicated model whose network has a child named
  \<open>submodule\<close>, loaded into the single-device model of the same network: the direct
  load raises, the fallback turns the stored name \<open>module.submodule.weight\<close> into
  \<open>subweight\<close> (every occurrence of \<open>module.\<close> is removed, not the prefix only), the
  load inside the handler raises, and the optimizer state and the iteration counter are
  not restored.
\<close>

theorem load_model_submodule_fallback:
  "strip_module_loop [] (ck_model replicated_checkpoint) = [(''subweight'', [1])]
   \<and> fst (load_model ''saved/run/latest_model.pth''
            [''saved/run/latest_model.pth'' \<mapsto> replicated_checkpoint] single_model)
       = Inl RuntimeError
   \<and> optimizer (snd (load_model ''saved/run/latest_model.pth''
            [''saved/run/latest_model.pth'' \<mapsto> replicated_checkpoint] single_model))
       = [(''momentum'', [0])]
   \<and> it (snd (load_model ''saved/run/latest_model.pth''
            [''saved/run/latest_model.pth'' \<mapsto> replicated_checkpoint] single_model)) = 0"
  by (simp add: load_model_def then_do_def load_into_model_def load_into_ema_model_def
      load_state_dict_def compatible_def copy_matching_def keys_def Let_def
      replicated_checkpoint_def single_model_def)

text \<open>
  Claim C2 at the same pair of models: \<open>save_model\<close> on the replicated instance followed
  by \<open>load_model\<close> on the single-device instance raises; the parameters and the
  iteration counter of the loading instance keep their old values.
\<close>

theorem save_load_submodule_roundtrip:
  "fst (load_model ''saved/run/latest_model.pth''
          (snd (save_model ''latest_model.pth'' ''saved/run'' replicated_model Map.empty))
          single_model) = Inl RuntimeError
   \<and> model (snd (load_model ''saved/run/latest_model.pth''
          (snd (save_model ''latest_model.pth'' ''saved/run'' replicated_model Map.empty))
          single_model)) = [(''submodule.weight'', [0])]
   \<and> it (snd (load_model ''saved/run/latest_model.pth''
          (snd (save_model ''latest_model.pth'' ''saved/run'' replicated_model Map.empty))
          single_model)) = 0"
  by (simp add: load_model_def then_do_def load_into_model_def load_into_ema_model_def
      load_state_dict_def compatible_def copy_matching_def keys_def Let_def
      save_model_def os_path_join_def apply_shadow_def restore_def
      model_eval_def model_train_def log_def replicated_model_def single_model_def)

text \<open>
  Whenever \<open>load_model\<close> returns, on the direct path or on a fallback path, the optimizer
  state, the scheduler state and the iteration counter are those of the checkpoint.
\<close>

lemma load_model_returns_training_state:
  assumes "fs load_path = Some ck" and "fst (load_model load_path fs st) = Inr u"
  shows "optimizer (snd (load_model load_path fs st)) = ck_optimizer ck
       \<and> scheduler (snd (load_model load_path fs st)) = ck_scheduler ck
       \<and> it (snd (load_model load_path fs st)) = ck_it ck"
  using assms
  by (auto simp: load_model_def Let_def load_training_state_def
      split: prod.splits sum.splits if_splits)

text \<open>
  For parameter names without a further \<open>module.\<close> the round trip succeeds in both
  directions of the naming mismatch: the strict direct load raises, the fallback renames,
  and the parameters, the optimizer state, the scheduler state and the iteration counter
  of the checkpoint arrive in the loading instance.
\<close>

lemma save_load_replicated_to_single:
  "load_model ''saved/run/latest_model.pth''
     (snd (save_model ''latest_model.pth'' ''saved/run'' replicated_fc Map.empty)) single_fc
   = (Inr (), single_fc\<lparr>model := [(''fc.weight'', [1, 2]), (''fc.bias'', [3])],
                        ema_model := [(''fc.weight'', [4, 5]), (''fc.bias'', [6])],
                        optimizer := [(''momentum'', [5])],
                        scheduler := [(''last_epoch'', [7])], it := 7\<rparr>)"
  by (simp add: load_model_def then_do_def load_into_model_def load_into_ema_model_def
      load_state_dict_def compatible_def copy_matching_def keys_def Let_def
      load_training_state_def
      save_model_def os_path_join_def apply_shadow_def restore_def
      model_eval_def model_train_def log_def replicated_fc_def single_fc_def)

lemma save_load_single_to_replicated:
  "fst (load_model ''saved/run/latest_model.pth''
     (snd (save_model ''latest_model.pth'' ''saved/run''
             (single_fc\<lparr>model := [(''fc.weight'', [1, 2]), (''fc.bias'', [3])], it := 9\<rparr>)
             Map.empty)) replicated_fc) = Inr ()
   \<and> model (snd (load_model ''saved/run/latest_model.pth''
     (snd (save_model ''latest_model.pth'' ''saved/run''
             (single_fc\<lparr>model := [(''fc.weight'', [1, 2]), (''fc.bias'', [3])], it := 9\<rparr>)
             Map.empty)) replicated_fc))
     = [(''module.fc.weight'', [1, 2]), (''module.fc.bias'', [3])]
   \<and> it (snd (load_model ''saved/run/latest_model.pth''
     (snd (save_model ''latest_model.pth'' ''saved/run''
             (single_fc\<lparr>model := [(''fc.weight'', [1, 2]), (''fc.bias'', [3])], it := 9\<rparr>)
             Map.empty)) replicated_fc)) = 9"
  by (simp add: load_model_def then_do_def load_into_model_def load_into_ema_model_def
      load_state_dict_def compatible_def copy_matching_def keys_def Let_def
      load_training_state_def
      save_model_def os_path_join_def apply_shadow_def restore_def
      model_eval_def model_train_def log_def replicated_fc_def single_fc_def)

end
